theory Spec2Isabelle
  imports Main "HOL-Library.AList" "HOL-Library.Multiset"
begin

section \<open>Errors (f1/errors.py and the Python built-ins the code can raise)\<close>

text \<open>
  \<open>MissingDataError\<close> and \<open>DriverNotFoundError\<close> are the bot's own exception classes; the
  others are the built-in exceptions that the modelled code raises on \<open>None\<close>, on a missing
  key or attribute, on a malformed number and on an index out of range. A call either
  raises (\<open>Inl e\<close>) or returns (\<open>Inr v\<close>).
\<close>

datatype error =
    MissingDataError
  | DriverNotFoundError
  | TypeError
  | AttributeError
  | KeyError
  | ValueError
  | IndexError

definition and_then :: "error + 'a \<Rightarrow> ('a \<Rightarrow> error + 'b) \<Rightarrow> error + 'b" where
  "and_then m f = (case m of Inl e \<Rightarrow> Inl e | Inr x \<Rightarrow> f x)"

section \<open>Python sequences and strings\<close>

text \<open>\<open>xs[i]\<close>: a negative index counts from the end; out of range raises \<open>IndexError\<close>.\<close>

definition py_index :: "'a list \<Rightarrow> int \<Rightarrow> error + 'a" where
  "py_index xs i =
     (let n = int (length xs); j = (if i < 0 then i + n else i)
      in if 0 \<le> j \<and> j < n then Inr (xs ! nat j) else Inl IndexError)"

text \<open>\<open>xs[i:]\<close>: a negative start counts from the end, and the start is then clamped
  to \<open>0 .. len(xs)\<close>; a slice never raises.\<close>

definition py_slice_from :: "'a list \<Rightarrow> int \<Rightarrow> 'a list" where
  "py_slice_from xs i =
     (let n = int (length xs); j = (if i < 0 then max 0 (i + n) else min i n)
      in drop (nat j) xs)"

text \<open>\<open>xs[:j]\<close> for a stop \<open>j \<ge> 0\<close> (the code only uses \<open>[:5]\<close>).\<close>

definition py_slice_to :: "'a list \<Rightarrow> nat \<Rightarrow> 'a list" where
  "py_slice_to xs j = take j xs"

text \<open>\<open>s.startswith(p)\<close> and the substring test \<open>sub in s\<close> on \<open>str\<close>.\<close>

fun startswith :: "string \<Rightarrow> string \<Rightarrow> bool" where
  "startswith s [] = True"
| "startswith [] (p # ps) = False"
| "startswith (c # cs) (p # ps) = (c = p \<and> startswith cs ps)"

fun str_contains :: "string \<Rightarrow> string \<Rightarrow> bool" where
  "str_contains sub [] = (sub = [])"
| "str_contains sub (c # cs) = (startswith (c # cs) sub \<or> str_contains sub cs)"

section \<open>f1/utils.py\<close>

subsection \<open>filter_times\<close>

text \<open>
  \<open>filter_times(sorted_times, filter: str | None)\<close>. The two equality tests come first;
  the containment tests \<open>'top' in filter\<close> and \<open>'bottom' in filter\<close> raise \<open>TypeError\<close>
  when \<open>filter\<close> is \<open>None\<close> (\<open>None\<close> is not iterable).
\<close>

definition filter_times :: "'a list \<Rightarrow> string option \<Rightarrow> error + 'a list" where
  "filter_times sorted_times flt =
     (if flt = Some ''slowest'' then
        and_then (py_index sorted_times (int (length sorted_times) - 1)) (\<lambda>x. Inr [x])
      else if flt = Some ''fastest'' then
        and_then (py_index sorted_times 0) (\<lambda>x. Inr [x])
      else
        (case flt of
           None \<Rightarrow> Inl TypeError
         | Some f \<Rightarrow>
             if str_contains ''top'' f then Inr (py_slice_to sorted_times 5)
             else if str_contains ''bottom'' f then
               Inr (py_slice_from sorted_times (int (length sorted_times) - 5))
             else Inr sorted_times))"

subsection \<open>keep_fastest\<close>

text \<open>
  A timing entry is a \<open>dict\<close> from field names to values, here an association list.
  \<open>d[k]\<close> raises \<open>KeyError\<close> on a missing key. The values' own less-than comparison is the
  parameter \<open>lt\<close>: it may raise (\<open>TypeError\<close> between a \<open>str\<close> and a number).
\<close>

type_synonym 'v entry = "(string \<times> 'v) list"

definition getitem :: "('k \<times> 'v) list \<Rightarrow> 'k \<Rightarrow> error + 'v" where
  "getitem d k = (case map_of d k of None \<Rightarrow> Inl KeyError | Some v \<Rightarrow> Inr v)"

text \<open>
  The loop over \<open>lst\<close>, with the dict \<open>seen\<close> as an association list in insertion order:
  \<open>seen[k] = d\<close> replaces the value in place when \<open>k\<close> is present and appends otherwise,
  which is \<open>AList.update\<close>. The right operand of \<open>or\<close> is evaluated only when the driver
  is already in \<open>seen\<close>.
\<close>

fun keep_fastest_loop ::
  "('v \<Rightarrow> 'v \<Rightarrow> error + bool) \<Rightarrow> string \<Rightarrow> 'v entry list \<Rightarrow> ('v \<times> 'v entry) list
     \<Rightarrow> error + ('v \<times> 'v entry) list" where
  "keep_fastest_loop lt key [] seen = Inr seen"
| "keep_fastest_loop lt key (d # lst) seen =
     and_then (getitem d ''Driver'') (\<lambda>drv.
       case map_of seen drv of
         None \<Rightarrow> keep_fastest_loop lt key lst (AList.update drv d seen)
       | Some s \<Rightarrow>
           and_then (getitem d key) (\<lambda>a.
           and_then (getitem s key) (\<lambda>b.
           and_then (lt a b) (\<lambda>less.
             if less then keep_fastest_loop lt key lst (AList.update drv d seen)
             else keep_fastest_loop lt key lst seen))))"

definition keep_fastest ::
  "('v \<Rightarrow> 'v \<Rightarrow> error + bool) \<Rightarrow> 'v entry list \<Rightarrow> string \<Rightarrow> error + 'v entry list" where
  "keep_fastest lt lst key =
     and_then (keep_fastest_loop lt key lst []) (\<lambda>seen. Inr (map snd seen))"

subsection \<open>find_driver\<close>

text \<open>
  A driver entry is a \<open>dict\<close> of the provider's fields (\<open>driverId\<close>, \<open>permanentNumber\<close>,
  \<open>code\<close>, \<open>url\<close>, \<open>givenName\<close>, \<open>familyName\<close>, \<open>dateOfBirth\<close>, \<open>nationality\<close>), all of
  them strings, so \<open>str(v)\<close> is \<open>v\<close>. \<open>str.casefold\<close> is the parameter \<open>casefold\<close>.
\<close>

type_synonym driver = "(string \<times> string) list"

fun find_driver :: "(string \<Rightarrow> string) \<Rightarrow> string \<Rightarrow> driver list \<Rightarrow> error + driver" where
  "find_driver casefold ident [] = Inl DriverNotFoundError"
| "find_driver casefold ident (d # drivers) =
     (if casefold ident \<in> set (map (\<lambda>v. casefold v) (map snd d)) then Inr d
      else find_driver casefold ident drivers)"

text \<open>
  For closed examples: \<open>casefold\<close> on ASCII strings (\<open>A\<close>..\<open>Z\<close> to \<open>a\<close>..\<open>z\<close>, every other
  character unchanged), where it agrees with \<open>str.casefold\<close>.
\<close>

definition ascii_casefold :: "string \<Rightarrow> string" where
  "ascii_casefold s =
     map (\<lambda>c. let n = (of_char c :: nat) in if 65 \<le> n \<and> n \<le> 90 then char_of (n + 32) else c) s"

subsection \<open>age\<close>

text \<open>\<open>age(yob)\<close>, with \<open>current_year()\<close> and \<open>int\<close> as parameters.\<close>

definition age :: "int \<Rightarrow> (string \<Rightarrow> error + int) \<Rightarrow> string \<Rightarrow> error + int" where
  "age current_year to_int yob =
     and_then (to_int yob) (\<lambda>y. if current_year < y then Inr 0 else Inr (current_year - y))"

section \<open>BeautifulSoup documents\<close>

text \<open>
  What \<open>BeautifulSoup(res, 'lxml')\<close> gives: a tree of tags (name, attributes, contents)
  and strings. An element is a node together with its next siblings, which
  \<open>find_next_sibling\<close> reads. \<open>located\<close> lists the descendants of a node in document order.
\<close>

datatype soup =
    Tag (tag_name: string) (attrs: "(string \<times> string) list") (contents: "soup list")
  | NavigableString string

type_synonym element = "soup \<times> soup list"

fun located :: "soup \<Rightarrow> element list"
  and located_list :: "soup list \<Rightarrow> element list" where
  "located (Tag n a cs) = located_list cs"
| "located (NavigableString s) = []"
| "located_list [] = []"
| "located_list (c # cs) = (c, cs) # located c @ located_list cs"

fun siblings :: "soup list \<Rightarrow> element list" where
  "siblings [] = []"
| "siblings (c # cs) = (c, cs) # siblings cs"

fun named :: "string \<Rightarrow> element \<Rightarrow> bool" where
  "named name (Tag n a cs, sibs) = (n = name)"
| "named name (NavigableString s, sibs) = False"

text \<open>\<open>tag.find(name)\<close>, \<open>tag.find_all(name)\<close>, \<open>tag.find_next_sibling(name)\<close> and the
  \<open>.string\<close> of a node: the string of its only child, if it has exactly one.\<close>

definition find_tag :: "string \<Rightarrow> element \<Rightarrow> element option" where
  "find_tag name el = List.find (named name) (located (fst el))"

definition find_all_tags :: "string \<Rightarrow> element \<Rightarrow> element list" where
  "find_all_tags name el = filter (named name) (located (fst el))"

definition next_sibling_tag :: "string \<Rightarrow> element \<Rightarrow> element option" where
  "next_sibling_tag name el = List.find (named name) (siblings (snd el))"

fun string_of :: "soup \<Rightarrow> string option" where
  "string_of (NavigableString s) = Some s"
| "string_of (Tag n a cs) = (case cs of [c] \<Rightarrow> string_of c | _ \<Rightarrow> None)"

text \<open>
  The same operations on a Python value that may be \<open>None\<close> (the result of a failed
  find). \<open>x.name\<close> for a tag name is \<open>x.find(name)\<close>; on \<open>None\<close> an attribute access raises
  \<open>AttributeError\<close> and a subscript raises \<open>TypeError\<close>; \<open>x[k]\<close> on a tag without the
  attribute \<open>k\<close> raises \<open>KeyError\<close>. Navigation only ever yields tags.
\<close>

definition dot :: "element option \<Rightarrow> string \<Rightarrow> error + element option" where
  "dot x name = (case x of None \<Rightarrow> Inl AttributeError | Some el \<Rightarrow> Inr (find_tag name el))"

definition dot_string :: "element option \<Rightarrow> error + string option" where
  "dot_string x = (case x of None \<Rightarrow> Inl AttributeError | Some el \<Rightarrow> Inr (string_of (fst el)))"

definition subscript :: "element option \<Rightarrow> string \<Rightarrow> error + string" where
  "subscript x k =
     (case x of
        None \<Rightarrow> Inl TypeError
      | Some el \<Rightarrow>
          (case fst el of
             Tag n a cs \<Rightarrow> (case map_of a k of None \<Rightarrow> Inl KeyError | Some v \<Rightarrow> Inr v)
           | NavigableString s \<Rightarrow> Inl TypeError))"

definition dot_find_all :: "element option \<Rightarrow> string \<Rightarrow> error + element list" where
  "dot_find_all x name =
     (case x of None \<Rightarrow> Inl AttributeError | Some el \<Rightarrow> Inr (find_all_tags name el))"

text \<open>\<open>x.a.string\<close>, a chain the code uses throughout.\<close>

definition field_string :: "element option \<Rightarrow> string \<Rightarrow> error + string option" where
  "field_string x name = and_then (dot x name) dot_string"

text \<open>
  \<open>x.name.string\<close>: \<open>name\<close> is the tag's own name attribute, a \<open>str\<close>, not a search for a
  \<open>name\<close> child, and a \<open>str\<close> has no attribute \<open>string\<close>; on \<open>None\<close> the first access
  already fails. Either way \<open>AttributeError\<close>.
\<close>

definition dot_name_string :: "element option \<Rightarrow> error + string option" where
  "dot_name_string x = (case x of None \<Rightarrow> Inl AttributeError | Some el \<Rightarrow> Inl AttributeError)"

text \<open>A \<open>for\<close> loop that appends one entry per item, stopping at the first exception.\<close>

fun for_each :: "('a \<Rightarrow> error + 'b) \<Rightarrow> 'a list \<Rightarrow> error + 'b list" where
  "for_each f [] = Inr []"
| "for_each f (x # xs) = and_then (f x) (\<lambda>y. and_then (for_each f xs) (\<lambda>ys. Inr (y # ys)))"

text \<open>\<open>f'{v}'\<close> of a value that may be \<open>None\<close>.\<close>

definition format_opt :: "string option \<Rightarrow> string" where
  "format_opt v = (case v of None \<Rightarrow> ''None'' | Some s \<Rightarrow> s)"

section \<open>The runtime the queries run against\<close>

text \<open>
  What f1/api.py takes from outside the repository: the transport \<open>fetch\<close> (\<open>None\<close> when the
  provider gives no payload), the \<open>lxml\<close> parser, \<open>int(s)\<close> and \<open>int(float(s))\<close> on a
  \<open>str\<close>, \<open>datetime.strptime(s, fmt_in).strftime(fmt_out)\<close> and \<open>date.today().year\<close>.
\<close>

record 'p runtime =
  fetch :: "string \<Rightarrow> 'p option"
  BeautifulSoup :: "'p \<Rightarrow> soup"
  py_int :: "string \<Rightarrow> error + int"
  py_int_float :: "string \<Rightarrow> error + int"
  reformat_time :: "string \<Rightarrow> string \<Rightarrow> string \<Rightarrow> error + string"
  today_year :: int

text \<open>\<open>int(v)\<close> and \<open>int(float(v))\<close> of a value that may be \<open>None\<close> (\<open>TypeError\<close>).\<close>

definition int_of :: "'p runtime \<Rightarrow> string option \<Rightarrow> error + int" where
  "int_of rt v = (case v of None \<Rightarrow> Inl TypeError | Some s \<Rightarrow> py_int rt s)"

definition int_float_of :: "'p runtime \<Rightarrow> string option \<Rightarrow> error + int" where
  "int_float_of rt v = (case v of None \<Rightarrow> Inl TypeError | Some s \<Rightarrow> py_int_float rt s)"

text \<open>\<open>utils.date_parser\<close> and \<open>utils.time_parser\<close>; \<open>strptime\<close> of \<open>None\<close> is a \<open>TypeError\<close>.\<close>

definition date_parser :: "'p runtime \<Rightarrow> string option \<Rightarrow> error + string" where
  "date_parser rt date_str =
     (case date_str of
        None \<Rightarrow> Inl TypeError
      | Some s \<Rightarrow> reformat_time rt s ''%Y-%m-%d'' ''%d %b'')"

definition time_parser :: "'p runtime \<Rightarrow> string option \<Rightarrow> error + string" where
  "time_parser rt time_str =
     (case time_str of
        None \<Rightarrow> Inl TypeError
      | Some s \<Rightarrow> reformat_time rt s ''%H:%M:%SZ'' ''%H:%M UTC'')"

text \<open>\<open>utils.age(x.string[:4])\<close>: slicing \<open>None\<close> is a \<open>TypeError\<close>.\<close>

definition age_of :: "'p runtime \<Rightarrow> string option \<Rightarrow> error + int" where
  "age_of rt v =
     (case v of None \<Rightarrow> Inl TypeError | Some s \<Rightarrow> age (today_year rt) (py_int rt) (take 4 s))"

section \<open>f1/api.py\<close>

definition BASE_URL :: string where
  "BASE_URL = ''http://ergast.com/api/f1''"

text \<open>\<open>get_soup\<close>: \<open>None\<close> when the fetch yields \<open>None\<close>, the parsed document otherwise. A
  document is always truthy, so \<open>if soup:\<close> tests for \<open>None\<close> only.\<close>

definition get_soup :: "'p runtime \<Rightarrow> string \<Rightarrow> element option" where
  "get_soup rt url =
     (case fetch rt url of None \<Rightarrow> None | Some res \<Rightarrow> Some (BeautifulSoup rt res, []))"

subsection \<open>get_driver_info\<close>

record driver_info =
  di_firstname :: "string option"
  di_surname :: "string option"
  di_code :: string
  di_id :: string
  di_url :: string
  di_number :: "string option"
  di_age :: int
  di_nationality :: "string option"

definition driver_info_of :: "'p runtime \<Rightarrow> element \<Rightarrow> error + driver_info" where
  "driver_info_of rt soup =
     (let driver = find_tag ''driver'' soup in
      and_then (field_string driver ''givenname'') (\<lambda>firstname.
      and_then (field_string driver ''familyname'') (\<lambda>surname.
      and_then (subscript driver ''code'') (\<lambda>code.
      and_then (subscript driver ''driverid'') (\<lambda>driverid.
      and_then (subscript driver ''url'') (\<lambda>url.
      and_then (field_string driver ''permanentnumber'') (\<lambda>number.
      and_then (and_then (field_string driver ''dateofbirth'') (age_of rt)) (\<lambda>age.
      and_then (field_string driver ''nationality'') (\<lambda>nationality.
        Inr \<lparr>di_firstname = firstname, di_surname = surname, di_code = code,
             di_id = driverid, di_url = url, di_number = number, di_age = age,
             di_nationality = nationality\<rparr>)))))))))"

definition get_driver_info :: "'p runtime \<Rightarrow> string \<Rightarrow> error + driver_info" where
  "get_driver_info rt driver_id =
     (case get_soup rt (BASE_URL @ ''/drivers/'' @ driver_id) of
        Some soup \<Rightarrow> driver_info_of rt soup
      | None \<Rightarrow> Inl MissingDataError)"

subsection \<open>get_driver_standings, get_team_standings\<close>

record driver_standing =
  ds_Pos :: int
  ds_Driver :: string
  ds_Points :: int
  ds_Wins :: int

record team_standing =
  ts_Pos :: int
  ts_Team :: "string option"
  ts_Points :: int
  ts_Wins :: int

record 'a standings =
  st_season :: string
  st_round :: string
  st_data :: "'a list"

definition driver_standing_of :: "'p runtime \<Rightarrow> element \<Rightarrow> error + driver_standing" where
  "driver_standing_of rt standing =
     and_then (and_then (subscript (Some standing) ''position'') (py_int rt)) (\<lambda>pos.
     and_then (and_then (dot (Some standing) ''driver'') (\<lambda>d. subscript d ''code'')) (\<lambda>code.
     and_then (and_then (subscript (Some standing) ''points'') (py_int rt)) (\<lambda>points.
     and_then (and_then (subscript (Some standing) ''wins'') (py_int rt)) (\<lambda>wins.
       Inr \<lparr>ds_Pos = pos, ds_Driver = code, ds_Points = points, ds_Wins = wins\<rparr>))))"

definition driver_standings_of ::
  "'p runtime \<Rightarrow> element \<Rightarrow> error + driver_standing standings" where
  "driver_standings_of rt soup =
     (let standings = find_tag ''standingslist'' soup in
      and_then (subscript standings ''season'') (\<lambda>season.
      and_then (subscript standings ''round'') (\<lambda>rnd.
      and_then (dot_find_all standings ''driverstanding'') (\<lambda>rows.
      and_then (for_each (driver_standing_of rt) rows) (\<lambda>entries.
        Inr \<lparr>st_season = season, st_round = rnd, st_data = entries\<rparr>)))))"

definition get_driver_standings ::
  "'p runtime \<Rightarrow> string \<Rightarrow> error + driver_standing standings" where
  "get_driver_standings rt season =
     (case get_soup rt (BASE_URL @ ''/'' @ season @ ''/driverStandings'') of
        Some soup \<Rightarrow> driver_standings_of rt soup
      | None \<Rightarrow> Inl MissingDataError)"

definition team_standing_of :: "'p runtime \<Rightarrow> element \<Rightarrow> error + team_standing" where
  "team_standing_of rt standing =
     and_then (and_then (subscript (Some standing) ''position'') (py_int rt)) (\<lambda>pos.
     and_then (and_then (dot (Some standing) ''constructor'') (\<lambda>c. field_string c ''name''))
       (\<lambda>team.
     and_then (and_then (subscript (Some standing) ''points'') (py_int rt)) (\<lambda>points.
     and_then (and_then (subscript (Some standing) ''wins'') (py_int rt)) (\<lambda>wins.
       Inr \<lparr>ts_Pos = pos, ts_Team = team, ts_Points = points, ts_Wins = wins\<rparr>))))"

definition team_standings_of ::
  "'p runtime \<Rightarrow> element \<Rightarrow> error + team_standing standings" where
  "team_standings_of rt soup =
     (let standings = find_tag ''standingslist'' soup in
      and_then (subscript standings ''season'') (\<lambda>season.
      and_then (subscript standings ''round'') (\<lambda>rnd.
      and_then (dot_find_all standings ''constructorstanding'') (\<lambda>rows.
      and_then (for_each (team_standing_of rt) rows) (\<lambda>entries.
        Inr \<lparr>st_season = season, st_round = rnd, st_data = entries\<rparr>)))))"

definition get_team_standings ::
  "'p runtime \<Rightarrow> string \<Rightarrow> error + team_standing standings" where
  "get_team_standings rt season =
     (case get_soup rt (BASE_URL @ ''/'' @ season @ ''/constructorStandings'') of
        Some soup \<Rightarrow> team_standings_of rt soup
      | None \<Rightarrow> Inl MissingDataError)"

subsection \<open>get_race_results\<close>

record result_entry =
  re_Pos :: int
  re_Driver :: string
  re_Team :: "string option"
  re_Laps :: int
  re_Start :: int
  re_Time :: "string option"
  re_Status :: "string option"
  re_Points :: int

record timing_entry =
  tm_Rank :: int
  tm_Driver :: string
  tm_Time :: "string option"
  tm_Speed :: int

record race_results =
  rr_season :: string
  rr_round :: string
  rr_race :: "string option"
  rr_url :: string
  rr_date :: string
  rr_time :: string
  rr_data :: "result_entry list"
  rr_timings :: "timing_entry list"

text \<open>The dict appended to \<open>res['data']\<close> for one \<open>result\<close> element, its fields evaluated
  in the order they are written.\<close>

definition result_entry_of ::
  "'p runtime \<Rightarrow> element \<Rightarrow> element option \<Rightarrow> element option \<Rightarrow> error + result_entry" where
  "result_entry_of rt result driver finish_time =
     and_then (and_then (subscript (Some result) ''position'') (py_int rt)) (\<lambda>pos.
     and_then (field_string driver ''givenname'') (\<lambda>given.
     and_then (field_string driver ''familyname'') (\<lambda>family.
     and_then (and_then (dot (Some result) ''constructor'') (\<lambda>c. field_string c ''name''))
       (\<lambda>team.
     and_then (and_then (field_string (Some result) ''laps'') (int_of rt)) (\<lambda>laps.
     and_then (and_then (field_string (Some result) ''grid'') (int_of rt)) (\<lambda>grid.
     and_then (case finish_time of None \<Rightarrow> Inr None | Some ft \<Rightarrow> dot_string (Some ft))
       (\<lambda>time.
     and_then (field_string (Some result) ''status'') (\<lambda>status.
     and_then (and_then (subscript (Some result) ''points'') (py_int rt)) (\<lambda>points.
       Inr \<lparr>re_Pos = pos, re_Driver = format_opt given @ '' '' @ format_opt family,
            re_Team = team, re_Laps = laps, re_Start = grid, re_Time = time,
            re_Status = status, re_Points = points\<rparr>)))))))))"

text \<open>The dict appended to \<open>res['timings']\<close> when the result has a \<open>fastestlap\<close>.\<close>

definition timing_entry_of ::
  "'p runtime \<Rightarrow> element option \<Rightarrow> element option \<Rightarrow> error + timing_entry" where
  "timing_entry_of rt driver fastest_lap =
     and_then (and_then (subscript fastest_lap ''rank'') (py_int rt)) (\<lambda>rank.
     and_then (subscript driver ''code'') (\<lambda>code.
     and_then (field_string fastest_lap ''time'') (\<lambda>time.
     and_then (and_then (field_string fastest_lap ''averagespeed'') (int_float_of rt)) (\<lambda>speed.
       Inr \<lparr>tm_Rank = rank, tm_Driver = code, tm_Time = time, tm_Speed = speed\<rparr>))))"

text \<open>The loop \<open>for result in race_results\<close>, appending to both lists of \<open>res\<close>.\<close>

fun race_results_loop ::
  "'p runtime \<Rightarrow> element list \<Rightarrow> race_results \<Rightarrow> error + race_results" where
  "race_results_loop rt [] res = Inr res"
| "race_results_loop rt (result # rest) res =
     (let driver = find_tag ''driver'' result;
          finish_time = next_sibling_tag ''time'' result;
          fastest_lap = find_tag ''fastestlap'' result
      in and_then (result_entry_of rt result driver finish_time) (\<lambda>entry.
           let res1 = res\<lparr>rr_data := rr_data res @ [entry]\<rparr> in
           case fastest_lap of
             None \<Rightarrow> race_results_loop rt rest res1
           | Some fl \<Rightarrow>
               and_then (timing_entry_of rt driver (Some fl)) (\<lambda>timing.
                 race_results_loop rt rest
                   (res1\<lparr>rr_timings := rr_timings res1 @ [timing]\<rparr>))))"

definition race_results_of :: "'p runtime \<Rightarrow> element \<Rightarrow> error + race_results" where
  "race_results_of rt soup =
     (let race = find_tag ''race'' soup in
      and_then (and_then (dot race ''resultslist'') (\<lambda>l. dot_find_all l ''result''))
        (\<lambda>race_results.
      and_then (field_string race ''date'') (\<lambda>date.
      and_then (field_string race ''time'') (\<lambda>time.
      and_then (subscript race ''season'') (\<lambda>season.
      and_then (subscript race ''round'') (\<lambda>rnd.
      and_then (field_string race ''racename'') (\<lambda>racename.
      and_then (subscript race ''url'') (\<lambda>url.
      and_then (date_parser rt date) (\<lambda>d.
      and_then (time_parser rt time) (\<lambda>t.
        race_results_loop rt race_results
          \<lparr>rr_season = season, rr_round = rnd, rr_race = racename, rr_url = url,
           rr_date = d @ '' '' @ season, rr_time = t, rr_data = [],
           rr_timings = []\<rparr>))))))))))"

definition get_race_results :: "'p runtime \<Rightarrow> string \<Rightarrow> string \<Rightarrow> error + race_results" where
  "get_race_results rt rnd season =
     (case get_soup rt (BASE_URL @ ''/'' @ season @ ''/'' @ rnd @ ''/results'') of
        Some soup \<Rightarrow> race_results_of rt soup
      | None \<Rightarrow> Inl MissingDataError)"

subsection \<open>get_qualifying_results\<close>

record qualifying_entry =
  qe_Pos :: int
  qe_Driver :: string
  qe_Team :: "string option"
  qe_Q1 :: "string option"
  qe_Q2 :: "string option"
  qe_Q3 :: "string option"

record qualifying_results =
  qr_season :: string
  qr_round :: string
  qr_race :: "string option"
  qr_url :: string
  qr_date :: string
  qr_time :: string
  qr_data :: "qualifying_entry list"

text \<open>\<open>result.q1.string if result.q1 is not None else None\<close>\<close>

definition optional_string :: "element \<Rightarrow> string \<Rightarrow> string option" where
  "optional_string result name =
     (case find_tag name result of None \<Rightarrow> None | Some q \<Rightarrow> string_of (fst q))"

definition qualifying_entry_of :: "'p runtime \<Rightarrow> element \<Rightarrow> error + qualifying_entry" where
  "qualifying_entry_of rt result =
     and_then (and_then (subscript (Some result) ''position'') (py_int rt)) (\<lambda>pos.
     and_then (and_then (dot (Some result) ''driver'') (\<lambda>d. subscript d ''code'')) (\<lambda>code.
     and_then (and_then (dot (Some result) ''constructor'') (\<lambda>c. field_string c ''name''))
       (\<lambda>team.
       Inr \<lparr>qe_Pos = pos, qe_Driver = code, qe_Team = team,
            qe_Q1 = optional_string result ''q1'', qe_Q2 = optional_string result ''q2'',
            qe_Q3 = optional_string result ''q3''\<rparr>)))"

definition qualifying_results_of :: "'p runtime \<Rightarrow> element \<Rightarrow> error + qualifying_results" where
  "qualifying_results_of rt soup =
     (let race = find_tag ''race'' soup in
      and_then (and_then (dot race ''qualifyinglist'') (\<lambda>l. dot_find_all l ''qualifyingresult''))
        (\<lambda>quali_results.
      and_then (field_string race ''date'') (\<lambda>date.
      and_then (field_string race ''time'') (\<lambda>time.
      and_then (subscript race ''season'') (\<lambda>season.
      and_then (subscript race ''round'') (\<lambda>rnd.
      and_then (field_string race ''racename'') (\<lambda>racename.
      and_then (subscript race ''url'') (\<lambda>url.
      and_then (date_parser rt date) (\<lambda>d.
      and_then (time_parser rt time) (\<lambda>t.
      and_then (for_each (qualifying_entry_of rt) quali_results) (\<lambda>entries.
        Inr \<lparr>qr_season = season, qr_round = rnd, qr_race = racename, qr_url = url,
             qr_date = d @ '' '' @ season, qr_time = t, qr_data = entries\<rparr>)))))))))))"

definition get_qualifying_results ::
  "'p runtime \<Rightarrow> string \<Rightarrow> string \<Rightarrow> error + qualifying_results" where
  "get_qualifying_results rt rnd season =
     (case get_soup rt (BASE_URL @ ''/'' @ season @ ''/'' @ rnd @ ''/qualifying'') of
        Some soup \<Rightarrow> qualifying_results_of rt soup
      | None \<Rightarrow> Inl MissingDataError)"

subsection \<open>The career queries\<close>

text \<open>
  What a career query hands back to its caller: its result dict or, where the code has
  \<open>return MissingDataError()\<close>, the exception instance as an ordinary value.
\<close>

datatype 'a returned = Dict 'a | Instance error

record win_entry =
  we_Race :: "string option"
  we_Circuit :: "string option"
  we_Date :: string
  we_Team :: "string option"
  we_Grid :: int
  we_Laps :: int
  we_Time :: "string option"

record pole_entry =
  pe_Race :: "string option"
  pe_Circuit :: "string option"
  pe_Date :: string
  pe_Team :: "string option"
  pe_Q1 :: "string option"
  pe_Q2 :: "string option"
  pe_Q3 :: "string option"

record championship_entry =
  ce_Season :: string
  ce_Points :: int
  ce_Wins :: int
  ce_Team :: "string option"

record season_entry =
  se_Season :: string
  se_Pos :: int
  se_Team :: "string option"

record 'a career_list =
  cl_total :: int
  cl_driver :: driver_info
  cl_data :: "'a list"

record season_list =
  sl_total :: int
  sl_data :: "season_entry list"

record team_list =
  tl_total :: int
  tl_names :: "string option list"

text \<open>\<open>int(soup.MRData['total'])\<close>\<close>

definition total_of :: "'p runtime \<Rightarrow> element \<Rightarrow> error + int" where
  "total_of rt soup = and_then (subscript (find_tag ''MRData'' soup) ''total'') (py_int rt)"

definition win_entry_of :: "'p runtime \<Rightarrow> element \<Rightarrow> error + win_entry" where
  "win_entry_of rt race =
     and_then (and_then (dot (Some race) ''racelist'') (\<lambda>l. dot l ''result'')) (\<lambda>race_result.
     and_then (field_string (Some race) ''racename'') (\<lambda>racename.
     and_then (field_string (Some race) ''circuitname'') (\<lambda>circuit.
     and_then (and_then (field_string (Some race) ''date'') (date_parser rt)) (\<lambda>date.
     and_then (and_then (dot race_result ''constructor'') dot_name_string) (\<lambda>team.
     and_then (and_then (field_string race_result ''grid'') (int_of rt)) (\<lambda>grid.
     and_then (and_then (field_string race_result ''laps'') (int_of rt)) (\<lambda>laps.
     and_then (field_string race_result ''time'') (\<lambda>time.
       Inr \<lparr>we_Race = racename, we_Circuit = circuit, we_Date = date, we_Team = team,
            we_Grid = grid, we_Laps = laps, we_Time = time\<rparr>))))))))"

definition driver_wins_of ::
  "'p runtime \<Rightarrow> string \<Rightarrow> element \<Rightarrow> error + win_entry career_list" where
  "driver_wins_of rt driver_id soup =
     and_then (and_then (dot (Some soup) ''racetable'') (\<lambda>t. dot_find_all t ''race'')) (\<lambda>races.
     and_then (total_of rt soup) (\<lambda>total.
     and_then (get_driver_info rt driver_id) (\<lambda>driver.
     and_then (for_each (win_entry_of rt) races) (\<lambda>entries.
       Inr \<lparr>cl_total = total, cl_driver = driver, cl_data = entries\<rparr>))))"

definition get_driver_wins ::
  "'p runtime \<Rightarrow> string \<Rightarrow> error + win_entry career_list returned" where
  "get_driver_wins rt driver_id =
     (case get_soup rt (BASE_URL @ ''/drivers/'' @ driver_id @ ''/results/1'') of
        Some soup \<Rightarrow> and_then (driver_wins_of rt driver_id soup) (\<lambda>res. Inr (Dict res))
      | None \<Rightarrow> Inr (Instance MissingDataError))"

definition pole_entry_of :: "'p runtime \<Rightarrow> element \<Rightarrow> error + pole_entry" where
  "pole_entry_of rt race =
     and_then (and_then (dot (Some race) ''qualifyinglist'') (\<lambda>l. dot l ''qualifyingresult''))
       (\<lambda>quali_result.
     and_then (field_string (Some race) ''racename'') (\<lambda>racename.
     and_then (field_string (Some race) ''circuitname'') (\<lambda>circuit.
     and_then (and_then (field_string (Some race) ''date'') (date_parser rt)) (\<lambda>date.
     and_then (and_then (dot quali_result ''constructor'') dot_name_string) (\<lambda>team.
     and_then (field_string quali_result ''q1'') (\<lambda>q1.
     and_then (field_string quali_result ''q2'') (\<lambda>q2.
     and_then (field_string quali_result ''q3'') (\<lambda>q3.
       Inr \<lparr>pe_Race = racename, pe_Circuit = circuit, pe_Date = date, pe_Team = team,
            pe_Q1 = q1, pe_Q2 = q2, pe_Q3 = q3\<rparr>))))))))"

definition driver_poles_of ::
  "'p runtime \<Rightarrow> string \<Rightarrow> element \<Rightarrow> error + pole_entry career_list" where
  "driver_poles_of rt driver_id soup =
     and_then (and_then (dot (Some soup) ''racetable'') (\<lambda>t. dot_find_all t ''race'')) (\<lambda>races.
     and_then (total_of rt soup) (\<lambda>total.
     and_then (get_driver_info rt driver_id) (\<lambda>driver.
     and_then (for_each (pole_entry_of rt) races) (\<lambda>entries.
       Inr \<lparr>cl_total = total, cl_driver = driver, cl_data = entries\<rparr>))))"

definition get_driver_poles ::
  "'p runtime \<Rightarrow> string \<Rightarrow> error + pole_entry career_list returned" where
  "get_driver_poles rt driver_id =
     (case get_soup rt (BASE_URL @ ''/drivers/'' @ driver_id @ ''/grid/1'') of
        Some soup \<Rightarrow> and_then (driver_poles_of rt driver_id soup) (\<lambda>res. Inr (Dict res))
      | None \<Rightarrow> Inr (Instance MissingDataError))"

definition championship_entry_of :: "'p runtime \<Rightarrow> element \<Rightarrow> error + championship_entry" where
  "championship_entry_of rt standing =
     and_then (subscript (Some standing) ''season'') (\<lambda>season.
     and_then (and_then (and_then (dot (Some standing) ''driverstanding'')
                 (\<lambda>d. subscript d ''points'')) (py_int rt)) (\<lambda>points.
     and_then (and_then (and_then (dot (Some standing) ''driverstanding'')
                 (\<lambda>d. subscript d ''wins'')) (py_int rt)) (\<lambda>wins.
     and_then (and_then (and_then (dot (Some standing) ''driverstanding'')
                 (\<lambda>d. dot d ''constructor'')) dot_name_string) (\<lambda>team.
       Inr \<lparr>ce_Season = season, ce_Points = points, ce_Wins = wins, ce_Team = team\<rparr>))))"

definition driver_championships_of ::
  "'p runtime \<Rightarrow> string \<Rightarrow> element \<Rightarrow> error + championship_entry career_list" where
  "driver_championships_of rt driver_id soup =
     and_then (and_then (dot (Some soup) ''standingstable'')
                 (\<lambda>t. dot_find_all t ''standingslist'')) (\<lambda>standings.
     and_then (total_of rt soup) (\<lambda>total.
     and_then (get_driver_info rt driver_id) (\<lambda>driver.
     and_then (for_each (championship_entry_of rt) standings) (\<lambda>entries.
       Inr \<lparr>cl_total = total, cl_driver = driver, cl_data = entries\<rparr>))))"

definition get_driver_championships ::
  "'p runtime \<Rightarrow> string \<Rightarrow> error + championship_entry career_list" where
  "get_driver_championships rt driver_id =
     (case get_soup rt (BASE_URL @ ''/drivers/'' @ driver_id @ ''/driverStandings/1'') of
        Some soup \<Rightarrow> driver_championships_of rt driver_id soup
      | None \<Rightarrow> Inl MissingDataError)"

definition driver_teams_of :: "'p runtime \<Rightarrow> element \<Rightarrow> error + team_list" where
  "driver_teams_of rt soup =
     and_then (and_then (dot (Some soup) ''constructortable'')
                 (\<lambda>t. dot_find_all t ''constructor'')) (\<lambda>constructors.
     and_then (total_of rt soup) (\<lambda>total.
     and_then (for_each (\<lambda>constructor. dot_name_string (Some constructor)) constructors)
       (\<lambda>names.
       Inr \<lparr>tl_total = total, tl_names = names\<rparr>)))"

definition get_driver_teams :: "'p runtime \<Rightarrow> string \<Rightarrow> error + team_list returned" where
  "get_driver_teams rt driver_id =
     (case get_soup rt (BASE_URL @ ''/drivers/'' @ driver_id @ ''/constructors'') of
        Some soup \<Rightarrow> and_then (driver_teams_of rt soup) (\<lambda>res. Inr (Dict res))
      | None \<Rightarrow> Inr (Instance MissingDataError))"

definition season_entry_of :: "'p runtime \<Rightarrow> element \<Rightarrow> error + season_entry" where
  "season_entry_of rt standing =
     and_then (subscript (Some standing) ''season'') (\<lambda>season.
     and_then (and_then (subscript (Some standing) ''position'') (py_int rt)) (\<lambda>pos.
     and_then (and_then (dot (Some standing) ''constructor'') dot_name_string) (\<lambda>team.
       Inr \<lparr>se_Season = season, se_Pos = pos, se_Team = team\<rparr>)))"

definition driver_seasons_of :: "'p runtime \<Rightarrow> element \<Rightarrow> error + season_list" where
  "driver_seasons_of rt soup =
     and_then (and_then (dot (Some soup) ''standingstable'')
                 (\<lambda>t. dot_find_all t ''standingslist'')) (\<lambda>standings.
     and_then (total_of rt soup) (\<lambda>total.
     and_then (for_each (season_entry_of rt) standings) (\<lambda>entries.
       Inr \<lparr>sl_total = total, sl_data = entries\<rparr>)))"

definition get_driver_seasons :: "'p runtime \<Rightarrow> string \<Rightarrow> error + season_list" where
  "get_driver_seasons rt driver_id =
     (case get_soup rt (BASE_URL @ ''/drivers/'' @ driver_id @ ''/driverStandings'') of
        Some soup \<Rightarrow> driver_seasons_of rt soup
      | None \<Rightarrow> Inl MissingDataError)"

subsection \<open>get_driver_career\<close>

text \<open>
  \<open>asyncio.gather\<close> of the five sub-queries. All five are started; if none raises, the
  results come back in request order; otherwise the exception raised first in time
  propagates. Which one is first depends on the order in which the sub-queries finish,
  the parameter \<open>order\<close> (positions 0 to 4; a sub-query it leaves out finishes after the
  listed ones, in request order).
\<close>

definition raised :: "error + 'a \<Rightarrow> error option" where
  "raised r = (case r of Inl e \<Rightarrow> Some e | Inr v \<Rightarrow> None)"

definition first_raised :: "nat list \<Rightarrow> error option list \<Rightarrow> error option" where
  "first_raised order rs =
     (case List.map_filter (\<lambda>r. r) (map (\<lambda>i. rs ! i) (filter (\<lambda>i. i < length rs) order) @ rs) of
        [] \<Rightarrow> None
      | e # es \<Rightarrow> Some e)"

definition gather5 ::
  "nat list \<Rightarrow> error + 'a \<Rightarrow> error + 'b \<Rightarrow> error + 'c \<Rightarrow> error + 'd \<Rightarrow> error + 'e
     \<Rightarrow> error + ('a \<times> 'b \<times> 'c \<times> 'd \<times> 'e)" where
  "gather5 order a b c d e =
     (case first_raised order [raised a, raised b, raised c, raised d, raised e] of
        Some err \<Rightarrow> Inl err
      | None \<Rightarrow>
          and_then a (\<lambda>va. and_then b (\<lambda>vb. and_then c (\<lambda>vc. and_then d (\<lambda>vd.
          and_then e (\<lambda>ve. Inr (va, vb, vc, vd, ve)))))))"

record career =
  cr_driver :: driver_info
  cr_Wins :: int
  cr_Poles :: int
  cr_Championships :: "int \<times> string list"
  cr_Seasons :: "int \<times> string list"
  cr_Teams :: "int \<times> string option list"

text \<open>\<open>x['key']\<close> on what a career query returned: an exception instance is not
  subscriptable (\<open>TypeError\<close>).\<close>

definition as_dict :: "'a returned \<Rightarrow> error + 'a" where
  "as_dict x = (case x of Dict d \<Rightarrow> Inr d | Instance e \<Rightarrow> Inl TypeError)"

definition get_driver_career :: "'p runtime \<Rightarrow> nat list \<Rightarrow> string \<Rightarrow> error + career" where
  "get_driver_career rt order driver_id =
     and_then
       (gather5 order
          (get_driver_wins rt driver_id)
          (get_driver_poles rt driver_id)
          (get_driver_championships rt driver_id)
          (get_driver_seasons rt driver_id)
          (get_driver_teams rt driver_id))
       (\<lambda>(wins, poles, champs, seasons, teams).
          and_then (as_dict wins) (\<lambda>w.
          and_then (as_dict poles) (\<lambda>p.
          and_then (as_dict teams) (\<lambda>t.
            Inr \<lparr>cr_driver = cl_driver w,
                 cr_Wins = cl_total w,
                 cr_Poles = cl_total p,
                 cr_Championships = (cl_total champs, map ce_Season (cl_data champs)),
                 cr_Seasons = (sl_total seasons, map se_Season (sl_data seasons)),
                 cr_Teams = (tl_total t, tl_names t)\<rparr>))))"

subsection \<open>get_best_laps and the two rank_best_lap_times\<close>

record best_laps =
  bl_season :: string
  bl_round :: string
  bl_race :: "string option"
  bl_data :: "timing_entry list"

definition get_best_laps :: "'p runtime \<Rightarrow> string \<Rightarrow> string \<Rightarrow> error + best_laps" where
  "get_best_laps rt rnd season =
     and_then (get_race_results rt rnd season) (\<lambda>race_results.
       Inr \<lparr>bl_season = rr_season race_results, bl_round = rr_round race_results,
            bl_race = rr_race race_results, bl_data = rr_timings race_results\<rparr>)"


text \<open>
  \<open>api.rank_best_lap_times(data, filter)\<close> compares \<open>filter\<close> with its four string
  literals by identity (\<open>is\<close>). A \<open>str\<close> object is modelled by its identity and its
  characters; two objects are the same object when they have the same identity, and
  then they have the same characters. The module's literals are four distinct objects.
  The slowest and fastest branches return a bare entry, the others a list.
\<close>

datatype str_object = Str (identity: nat) (chars: string)

definition py_is :: "str_object \<Rightarrow> str_object \<Rightarrow> bool" where
  "py_is a b = (identity a = identity b)"

definition lit_slowest :: str_object where "lit_slowest = Str 1 ''slowest''"
definition lit_fastest :: str_object where "lit_fastest = Str 2 ''fastest''"
definition lit_top :: str_object where "lit_top = Str 3 ''top''"
definition lit_bottom :: str_object where "lit_bottom = Str 4 ''bottom''"

text \<open>An argument that can stand beside the literals in one heap: if it is one of them
  by identity, it has that literal's characters.\<close>

definition same_heap :: "str_object \<Rightarrow> bool" where
  "same_heap f =
     list_all (\<lambda>l. if py_is f l then chars f = chars l else True)
       [lit_slowest, lit_fastest, lit_top, lit_bottom]"

datatype 'a one_or_list = One 'a | Many "'a list"

definition rank_best_lap_times ::
  "race_results \<Rightarrow> str_object \<Rightarrow> error + timing_entry one_or_list" where
  "rank_best_lap_times data flt =
     (let sorted_times = sort_key tm_Rank (rr_timings data) in
      if py_is flt lit_slowest then
        and_then (py_index sorted_times (int (length sorted_times) - 1)) (\<lambda>x. Inr (One x))
      else if py_is flt lit_fastest then
        and_then (py_index sorted_times 0) (\<lambda>x. Inr (One x))
      else if py_is flt lit_top then Inr (Many (py_slice_to sorted_times 5))
      else if py_is flt lit_bottom then
        Inr (Many (py_slice_from sorted_times (int (length sorted_times) - 5)))
      else Inr (Many sorted_times))"

section \<open>A concrete runtime and documents for closed examples\<close>

text \<open>
  \<open>digits_int\<close> is \<open>int(s)\<close> on a non-empty string of ASCII digits and \<open>digits_int_float\<close>
  is \<open>int(float(s))\<close> on digits with an optional fraction; the examples call them on
  such strings only. \<open>example_reformat\<close> holds the two conversions the examples need.
  The payload of the example transport is the parsed document itself.
\<close>

definition digits_int :: "string \<Rightarrow> error + int" where
  "digits_int s =
     (if s \<noteq> [] \<and> list_all (\<lambda>c. 48 \<le> (of_char c :: nat) \<and> (of_char c :: nat) \<le> 57) s
      then Inr (foldl (\<lambda>a c. 10 * a + (int (of_char c) - 48)) 0 s)
      else Inl ValueError)"

definition digits_int_float :: "string \<Rightarrow> error + int" where
  "digits_int_float s = digits_int (takeWhile (\<lambda>c. c \<noteq> CHR ''.'') s)"

definition example_reformat :: "string \<Rightarrow> string \<Rightarrow> string \<Rightarrow> error + string" where
  "example_reformat s fmt_in fmt_out =
     (if (s, fmt_in, fmt_out) = (''2017-08-27'', ''%Y-%m-%d'', ''%d %b'') then Inr ''27 Aug''
      else if (s, fmt_in, fmt_out) = (''12:00:00Z'', ''%H:%M:%SZ'', ''%H:%M UTC'')
      then Inr ''12:00 UTC''
      else Inl ValueError)"

definition example_runtime :: "(string \<Rightarrow> soup option) \<Rightarrow> soup runtime" where
  "example_runtime f =
     \<lparr>fetch = f, BeautifulSoup = (\<lambda>doc. doc), py_int = digits_int,
      py_int_float = digits_int_float, reformat_time = example_reformat, today_year = 2023\<rparr>"

text \<open>The provider gives no payload for any URL.\<close>

definition no_payload :: "soup runtime" where
  "no_payload = example_runtime (\<lambda>url. None)"





definition belgium_results :: race_results where
  "belgium_results =
     \<lparr>rr_season = ''2017'', rr_round = ''12'', rr_race = Some ''Belgian Grand Prix'',
      rr_url = ''http://en.wikipedia.org/wiki/2017_Belgian_Grand_Prix'',
      rr_date = ''27 Aug 2017'', rr_time = ''12:00 UTC'',
      rr_data =
        [\<lparr>re_Pos = 1, re_Driver = ''Lewis Hamilton'', re_Team = Some ''Mercedes'',
          re_Laps = 44, re_Start = 1, re_Time = None, re_Status = Some ''Finished'',
          re_Points = 25\<rparr>,
         \<lparr>re_Pos = 2, re_Driver = ''Sebastian Vettel'', re_Team = Some ''Ferrari'',
          re_Laps = 44, re_Start = 2, re_Time = None, re_Status = Some ''Finished'',
          re_Points = 18\<rparr>],
      rr_timings =
        [\<lparr>tm_Rank = 2, tm_Driver = ''HAM'', tm_Time = Some ''1:46.603'', tm_Speed = 236\<rparr>,
         \<lparr>tm_Rank = 1, tm_Driver = ''VET'', tm_Time = Some ''1:46.577'', tm_Speed = 236\<rparr>]\<rparr>"

text \<open>Driver lists for \<open>find_driver\<close>: two drivers who share the code MSC, and a
  one-driver list.\<close>

definition michael_schumacher :: driver where
  "michael_schumacher =
     [(''driverId'', ''michael_schumacher''), (''code'', ''MSC''),
      (''url'', ''http://en.wikipedia.org/wiki/Michael_Schumacher''),
      (''givenName'', ''Michael''), (''familyName'', ''Schumacher''),
      (''dateOfBirth'', ''1969-01-03''), (''nationality'', ''German'')]"

definition mick_schumacher :: driver where
  "mick_schumacher =
     [(''driverId'', ''mick_schumacher''), (''permanentNumber'', ''47''), (''code'', ''MSC''),
      (''url'', ''http://en.wikipedia.org/wiki/Mick_Schumacher''),
      (''givenName'', ''Mick''), (''familyName'', ''Schumacher''),
      (''dateOfBirth'', ''1999-03-22''), (''nationality'', ''German'')]"

definition alonso :: driver where
  "alonso =
     [(''driverId'', ''alonso''), (''permanentNumber'', ''14''), (''code'', ''ALO''),
      (''url'', ''http://en.wikipedia.org/wiki/Fernando_Alonso''),
      (''givenName'', ''Fernando''), (''familyName'', ''Alonso''),
      (''dateOfBirth'', ''1981-07-29''), (''nationality'', ''Spanish'')]"

text \<open>The three representations by which a driver is meant to be resolved: the
  provider slug, the 3-letter code and the permanent number, where the entry has them.\<close>

definition identifiers :: "driver \<Rightarrow> string list" where
  "identifiers d = List.map_filter (map_of d) [''driverId'', ''code'', ''permanentNumber'']"

text \<open>The rank of the fastest lap of a \<open>result\<close> element, \<open>int(fastest_lap['rank'])\<close>, and
  whether the element has a \<open>fastestlap\<close> at all.\<close>

definition fastest_lap_rank :: "'p runtime \<Rightarrow> element \<Rightarrow> error + int" where
  "fastest_lap_rank rt result =
     and_then (subscript (find_tag ''fastestlap'' result) ''rank'') (py_int rt)"

definition has_fastest_lap :: "element \<Rightarrow> bool" where
  "has_fastest_lap result = (find_tag ''fastestlap'' result \<noteq> None)"

text \<open>The invariant of the dict \<open>seen\<close> in \<open>keep_fastest\<close>: its keys are distinct and each
  entry is stored under its own driver.\<close>

definition seen_ok :: "('v \<times> 'v entry) list \<Rightarrow> bool" where
  "seen_ok al =
     (distinct (map fst al) \<and> list_all (\<lambda>p. getitem (snd p) ''Driver'' = Inr (fst p)) al)"

text \<open>Six timing entries in ascending order of rank.\<close>

definition six_timings :: "timing_entry list" where
  "six_timings =
     map (\<lambda>(r, d). \<lparr>tm_Rank = r, tm_Driver = d, tm_Time = None, tm_Speed = 230\<rparr>)
       [(1, ''VET''), (2, ''HAM''), (3, ''BOT''), (4, ''RAI''), (5, ''RIC''), (6, ''HUL'')]"

text \<open>What each of the five sub-queries of \<open>get_driver_career\<close> raises, if anything, in
  request order (wins, poles, championships, seasons, teams).\<close>

definition career_raised :: "'p runtime \<Rightarrow> string \<Rightarrow> error option list" where
  "career_raised rt driver_id =
     [raised (get_driver_wins rt driver_id), raised (get_driver_poles rt driver_id),
      raised (get_driver_championships rt driver_id), raised (get_driver_seasons rt driver_id),
      raised (get_driver_teams rt driver_id)]"


section \<open>Responses that hold what get_race_results reads\<close>







text \<open>
  A runtime in which the provider answers the wins query of one driver with an error
  page (a document without a race table) and gives no payload for any other URL.
\<close>

definition error_page :: soup where
  "error_page =
     Tag ''[document]'' []
       [Tag ''html'' [] [Tag ''body'' [] [Tag ''p'' [] [NavigableString ''Bad Request'']]]]"

definition wins_error_page :: "soup runtime" where
  "wins_error_page =
     example_runtime
       (\<lambda>url. if url = ''http://ergast.com/api/f1/drivers/alonso/results/1''
             then Some error_page else None)"

section \<open>Properties of f1/utils.py\<close>

subsection \<open>keep_fastest\<close>

lemma update_fresh: "k \<notin> fst ` set al \<Longrightarrow> AList.update k v al = al @ [(k, v)]"
  by (induction al) auto

lemma seen_ok_update:
  "seen_ok al \<Longrightarrow> getitem d ''Driver'' = Inr k \<Longrightarrow> seen_ok (AList.update k d al)"
  unfolding seen_ok_def
  by (induction al) (auto simp: distinct_update update_keys list_all_iff split: if_splits)

text \<open>On a list whose drivers are all different and new, the loop appends every entry
  and compares nothing.\<close>

lemma keep_fastest_loop_distinct:
  "seen_ok al \<Longrightarrow> fst ` set al \<inter> fst ` set acc = {} \<Longrightarrow>
   keep_fastest_loop lt key (map snd al) acc = Inr (acc @ al)"
proof (induction al arbitrary: acc)
  case Nil
  then show ?case by simp
next
  case (Cons p al)
  obtain k e where p: "p = (k, e)" by (cases p)
  from Cons.prems p have k: "k \<notin> fst ` set acc" by auto
  then have m: "map_of acc k = None" by (simp add: map_of_eq_None_iff)
  have "keep_fastest_loop lt key (map snd al) (acc @ [(k, e)]) = Inr ((acc @ [(k, e)]) @ al)"
    using Cons.prems p by (intro Cons.IH) (auto simp: seen_ok_def)
  then show ?case using Cons.prems p m k by (simp add: and_then_def update_fresh seen_ok_def)
qed

lemma keep_fastest_loop_seen_ok:
  "keep_fastest_loop lt key lst seen = Inr out \<Longrightarrow> seen_ok seen \<Longrightarrow> seen_ok out"
proof (induction lst arbitrary: seen)
  case Nil
  then show ?case by simp
next
  case (Cons d lst)
  from Cons.prems(1) obtain drv where drv: "getitem d ''Driver'' = Inr drv"
    by (cases "getitem d ''Driver''") (auto simp: and_then_def)
  have upd: "seen_ok (AList.update drv d seen)"
    using Cons.prems(2) drv by (rule seen_ok_update)
  from Cons.prems(1) drv
  have "keep_fastest_loop lt key lst (AList.update drv d seen) = Inr out
      \<or> keep_fastest_loop lt key lst seen = Inr out"
    by (auto simp: and_then_def split: option.splits sum.splits if_splits)
  then show ?case using Cons.IH upd Cons.prems(2) by blast
qed

lemma keep_fastest_fixpoint:
  "keep_fastest lt lst key = Inr r \<Longrightarrow> keep_fastest lt r key = Inr r"
proof -
  assume a: "keep_fastest lt lst key = Inr r"
  then obtain out where out: "keep_fastest_loop lt key lst [] = Inr out" and r: "r = map snd out"
    by (cases "keep_fastest_loop lt key lst []") (auto simp: keep_fastest_def and_then_def)
  from out have "seen_ok out" by (rule keep_fastest_loop_seen_ok) (simp add: seen_ok_def)
  then have "keep_fastest_loop lt key (map snd out) [] = Inr out"
    using keep_fastest_loop_distinct [of out "[]" lt key] by simp
  with r show ?thesis by (simp add: keep_fastest_def and_then_def)
qed

text \<open>
  C8. \<open>keep_fastest\<close> is idempotent: for every list of timing entries, every key and
  every comparison of the values, applying \<open>keep_fastest\<close> to its own result gives that
  result again; where the first application raises, so does the composition, with the
  same exception.
\<close>

theorem keep_fastest_idempotent:
  "and_then (keep_fastest lt lst key) (\<lambda>r. keep_fastest lt r key) = keep_fastest lt lst key"
proof (cases "keep_fastest lt lst key")
  case (Inl e)
  then show ?thesis by (simp add: and_then_def)
next
  case (Inr r)
  then show ?thesis using keep_fastest_fixpoint [OF Inr] by (simp add: and_then_def)
qed

subsection \<open>filter_times\<close>

text \<open>
  C3. On a sequence of three elements \<open>'top'\<close> returns all three. \<open>'bottom'\<close> does not:
  its slice starts at \<open>len - 5 = -2\<close>, which Python counts from the end, so the
  result is the last two elements.
\<close>

theorem filter_times_bottom_of_three:
  "filter_times [a, b, c] (Some ''top'') = Inr [a, b, c] \<and>
   filter_times [a, b, c] (Some ''bottom'') = Inr [b, c]"
  by (simp add: filter_times_def py_slice_to_def py_slice_from_def)

text \<open>
  C5. With \<open>None\<close> as the filter the call does not return the sequence: neither equality
  test holds, and the containment test \<open>'top' in None\<close> raises \<open>TypeError\<close>.
\<close>

theorem filter_times_None_raises: "filter_times sorted_times None = Inl TypeError"
  by (simp add: filter_times_def)

text \<open>A filter string that is none of the keywords and contains neither \<open>top\<close> nor
  \<open>bottom\<close>, the empty string for one, does give the sequence back unchanged.\<close>

lemma filter_times_no_keyword:
  "f \<noteq> ''slowest'' \<Longrightarrow> f \<noteq> ''fastest'' \<Longrightarrow> \<not> str_contains ''top'' f \<Longrightarrow>
   \<not> str_contains ''bottom'' f \<Longrightarrow> filter_times xs (Some f) = Inr xs"
  by (simp add: filter_times_def)

text \<open>
  C9. On a non-empty sequence sorted ascending by its ranking key, \<open>'fastest'\<close> returns
  exactly one element; it is an element of the input and no element of the input has
  a smaller key.
\<close>

theorem filter_times_fastest:
  fixes key :: "'a \<Rightarrow> 'k::linorder"
  assumes "sorted_times \<noteq> []" and "sorted (map key sorted_times)"
  shows "\<exists>x. filter_times sorted_times (Some ''fastest'') = Inr [x] \<and> x \<in> set sorted_times \<and>
             (\<forall>y \<in> set sorted_times. key x \<le> key y)"
proof (cases sorted_times)
  case Nil
  with assms show ?thesis by simp
next
  case (Cons x xs)
  with assms(2) have "\<forall>y \<in> set sorted_times. key x \<le> key y" by auto
  moreover have "filter_times sorted_times (Some ''fastest'') = Inr [x]"
    using Cons by (simp add: filter_times_def py_index_def and_then_def)
  ultimately show ?thesis using Cons by auto
qed

theorem filter_times_fastest_witness:
  "\<exists>x. filter_times [(1::int, ''VET''), (2, ''HAM''), (3, ''BOT'')] (Some ''fastest'') = Inr [x] \<and>
       x \<in> set [(1, ''VET''), (2, ''HAM''), (3, ''BOT'')] \<and>
       (\<forall>y \<in> set [(1::int, ''VET''), (2, ''HAM''), (3, ''BOT'')]. fst x \<le> fst y)"
  using filter_times_fastest [of "[(1::int, ''VET''), (2, ''HAM''), (3, ''BOT'')]" fst]
  by simp

subsection \<open>find_driver\<close>

lemma identifiers_values: "r \<in> set (identifiers d) \<Longrightarrow> r \<in> set (map snd d)"
  by (auto simp: identifiers_def split: option.splits dest!: map_of_SomeD
      intro: rev_image_eqI)

lemma find_driver_skip:
  "\<forall>e \<in> set pre. casefold ident \<notin> set (map casefold (map snd e)) \<Longrightarrow>
   find_driver casefold ident (pre @ rest) = find_driver casefold ident rest"
  by (induction pre) auto

lemma find_driver_not_found:
  "(find_driver casefold ident drivers = Inl DriverNotFoundError) =
   (\<forall>e \<in> set drivers. casefold ident \<notin> set (map casefold (map snd e)))"
  by (induction drivers) auto

text \<open>
  C7, as the code has it. \<open>find_driver\<close> returns the first entry of the list that has a
  field value equal to the identifier up to case. So a driver of the list is resolved
  by its slug, its code or its number, in any letter case, to that very entry when no
  entry before it has a field value that matches the identifier; and an identifier
  fails with \<open>DriverNotFoundError\<close> exactly when it matches no field value, of any
  field, of any entry.
\<close>

theorem find_driver_first_field_match:
  assumes "r \<in> set (identifiers d)" and "casefold ident = casefold r"
    and "\<forall>e \<in> set pre. casefold ident \<notin> set (map casefold (map snd e))"
  shows "find_driver casefold ident (pre @ d # post) = Inr d \<and>
         ((find_driver casefold other (pre @ d # post) = Inl DriverNotFoundError) =
          (\<forall>e \<in> set (pre @ d # post). casefold other \<notin> set (map casefold (map snd e))))"
proof -
  from assms(1) have "r \<in> set (map snd d)" by (rule identifiers_values)
  then have "casefold ident \<in> set (map casefold (map snd d))" using assms(2) by auto
  then have "find_driver casefold ident (d # post) = Inr d" by simp
  then have "find_driver casefold ident (pre @ d # post) = Inr d"
    using find_driver_skip [OF assms(3), of "d # post"] by simp
  then show ?thesis using find_driver_not_found [of casefold other "pre @ d # post"] by blast
qed

theorem find_driver_first_field_match_witness:
  "''mick_schumacher'' \<in> set (identifiers mick_schumacher) \<and>
   ascii_casefold ''MICK_Schumacher'' = ascii_casefold ''mick_schumacher'' \<and>
   list_all (\<lambda>e. ascii_casefold ''MICK_Schumacher'' \<notin> set (map ascii_casefold (map snd e)))
     [michael_schumacher] \<and>
   find_driver ascii_casefold ''MICK_Schumacher'' ([michael_schumacher] @ mick_schumacher # [])
     = Inr mick_schumacher \<and>
   find_driver ascii_casefold ''hamilton'' ([michael_schumacher] @ mick_schumacher # [])
     = Inl DriverNotFoundError"
proof -
  have a: "''mick_schumacher'' \<in> set (identifiers mick_schumacher)" by code_simp
  have b: "ascii_casefold ''MICK_Schumacher'' = ascii_casefold ''mick_schumacher''"
    by code_simp
  have c: "list_all
      (\<lambda>e. ascii_casefold ''MICK_Schumacher'' \<notin> set (map ascii_casefold (map snd e)))
      [michael_schumacher]"
    by code_simp
  then have c': "\<forall>e \<in> set [michael_schumacher].
      ascii_casefold ''MICK_Schumacher'' \<notin> set (map ascii_casefold (map snd e))"
    by (simp only: list_all_iff)
  have d: "list_all (\<lambda>e. ascii_casefold ''hamilton'' \<notin> set (map ascii_casefold (map snd e)))
      ([michael_schumacher] @ mick_schumacher # [])"
    by code_simp
  then have d': "\<forall>e \<in> set ([michael_schumacher] @ mick_schumacher # []).
      ascii_casefold ''hamilton'' \<notin> set (map ascii_casefold (map snd e))"
    by (simp only: list_all_iff)
  from find_driver_first_field_match [OF a b c', of "[]" "''hamilton''"] d' a b c
  show ?thesis by blast
qed

text \<open>
  C7 as stated fails twice on the list of the two Schumachers. Mick Schumacher is
  resolved to himself by his slug but to Michael Schumacher by his code \<open>MSC\<close>, which
  the earlier entry shares; and \<open>german\<close>, which is no slug, code or number of either
  entry, resolves to an entry instead of failing.
\<close>

theorem find_driver_not_representation_agnostic:
  "find_driver ascii_casefold ''mick_schumacher'' [michael_schumacher, mick_schumacher]
     = Inr mick_schumacher \<and>
   ''mick_schumacher'' \<in> set (identifiers mick_schumacher) \<and>
   ''MSC'' \<in> set (identifiers mick_schumacher) \<and>
   find_driver ascii_casefold ''MSC'' [michael_schumacher, mick_schumacher]
     = Inr michael_schumacher \<and>
   michael_schumacher \<noteq> mick_schumacher \<and>
   ascii_casefold ''german'' \<notin>
     set (map ascii_casefold (identifiers michael_schumacher @ identifiers mick_schumacher)) \<and>
   find_driver ascii_casefold ''german'' [michael_schumacher, mick_schumacher]
     = Inr michael_schumacher"
proof -
  have "find_driver ascii_casefold ''mick_schumacher'' [michael_schumacher, mick_schumacher]
     = Inr mick_schumacher" by code_simp
  moreover have "''mick_schumacher'' \<in> set (identifiers mick_schumacher)" by code_simp
  moreover have "''MSC'' \<in> set (identifiers mick_schumacher)" by code_simp
  moreover have "find_driver ascii_casefold ''MSC'' [michael_schumacher, mick_schumacher]
     = Inr michael_schumacher" by code_simp
  moreover have "michael_schumacher \<noteq> mick_schumacher" by code_simp
  moreover have "ascii_casefold ''german'' \<notin>
     set (map ascii_casefold (identifiers michael_schumacher @ identifiers mick_schumacher))"
    by code_simp
  moreover have "find_driver ascii_casefold ''german'' [michael_schumacher, mick_schumacher]
     = Inr michael_schumacher" by code_simp
  ultimately show ?thesis by simp
qed

text \<open>
  C10. \<open>find_driver\<close> matches the identifier, up to case, against every field value of
  each entry: the first entry of the list that holds a matching value in any field is
  returned, wherever it stands in the list. So there is a driver list and an identifier
  that is none of the three representations of any entry, in any letter case, for
  which an entry is returned, and not the first of the list: \<open>Spanish\<close>, the
  nationality of the second of three drivers.
\<close>

theorem find_driver_any_field_of_any_entry:
  "(\<forall>casefold ident k v pre d post.
      (k, v) \<in> set d \<and> casefold ident = casefold v \<and>
      (\<forall>e \<in> set pre. casefold ident \<notin> set (map casefold (map snd e))) \<longrightarrow>
      find_driver casefold ident (pre @ d # post) = Inr d) \<and>
   (\<exists>pre d post ident.
      pre \<noteq> [] \<and>
      find_driver ascii_casefold ident (pre @ d # post) = Inr d \<and>
      list_all (\<lambda>e. ascii_casefold ident \<notin> set (map ascii_casefold (identifiers e)))
        (pre @ d # post))"
proof
  show "\<forall>casefold ident k v pre d post.
      (k, v) \<in> set d \<and> casefold ident = casefold v \<and>
      (\<forall>e \<in> set pre. casefold ident \<notin> set (map casefold (map snd e))) \<longrightarrow>
      find_driver casefold ident (pre @ d # post) = Inr d"
  proof (intro allI impI)
    fix casefold :: "string \<Rightarrow> string" and ident k v :: string
      and pre post :: "driver list" and d :: driver
    assume a: "(k, v) \<in> set d \<and> casefold ident = casefold v \<and>
      (\<forall>e \<in> set pre. casefold ident \<notin> set (map casefold (map snd e)))"
    then have "casefold ident \<in> set (map casefold (map snd d))" by (auto intro!: rev_image_eqI)
    then have h: "find_driver casefold ident (d # post) = Inr d" by simp
    from a have "\<forall>e \<in> set pre. casefold ident \<notin> set (map casefold (map snd e))" by blast
    then have "find_driver casefold ident (pre @ d # post) = find_driver casefold ident (d # post)"
      by (rule find_driver_skip)
    with h show "find_driver casefold ident (pre @ d # post) = Inr d" by (simp only:)
  qed
next
  have "find_driver ascii_casefold ''Spanish'' ([mick_schumacher] @ alonso # [michael_schumacher])
          = Inr alonso"
    by code_simp
  moreover have
    "list_all (\<lambda>e. ascii_casefold ''Spanish'' \<notin> set (map ascii_casefold (identifiers e)))
       ([mick_schumacher] @ alonso # [michael_schumacher])"
    by code_simp
  moreover have "[mick_schumacher] \<noteq> []" by simp
  ultimately show "\<exists>pre d post ident.
      pre \<noteq> [] \<and>
      find_driver ascii_casefold ident (pre @ d # post) = Inr d \<and>
      list_all (\<lambda>e. ascii_casefold ident \<notin> set (map ascii_casefold (identifiers e)))
        (pre @ d # post)"
    by blast
qed

theorem find_driver_any_field_of_any_entry_witness:
  "(''nationality'', ''Spanish'') \<in> set alonso \<and>
   ascii_casefold ''SPANISH'' = ascii_casefold ''Spanish'' \<and>
   list_all (\<lambda>e. ascii_casefold ''SPANISH'' \<notin> set (map ascii_casefold (map snd e)))
     [mick_schumacher] \<and>
   list_all (\<lambda>e. ascii_casefold ''SPANISH'' \<notin> set (map ascii_casefold (identifiers e)))
     ([mick_schumacher] @ alonso # [michael_schumacher]) \<and>
   find_driver ascii_casefold ''SPANISH'' ([mick_schumacher] @ alonso # [michael_schumacher])
     = Inr alonso"
proof -
  have a: "(''nationality'', ''Spanish'') \<in> set alonso" by code_simp
  have b: "ascii_casefold ''SPANISH'' = ascii_casefold ''Spanish''" by code_simp
  have c: "list_all (\<lambda>e. ascii_casefold ''SPANISH'' \<notin> set (map ascii_casefold (map snd e)))
     [mick_schumacher]" by code_simp
  then have c': "\<forall>e \<in> set [mick_schumacher].
      ascii_casefold ''SPANISH'' \<notin> set (map ascii_casefold (map snd e))"
    by (simp only: list_all_iff)
  have d: "list_all (\<lambda>e. ascii_casefold ''SPANISH'' \<notin> set (map ascii_casefold (identifiers e)))
     ([mick_schumacher] @ alonso # [michael_schumacher])" by code_simp
  from find_driver_any_field_of_any_entry a b c c' d show ?thesis by blast
qed

section \<open>Properties of f1/api.py\<close>

subsection \<open>No payload\<close>

lemma queries_raise_without_payload:
  assumes "\<forall>url. fetch rt url = None"
  shows "get_driver_info rt driver_id = Inl MissingDataError"
    and "get_driver_standings rt season = Inl MissingDataError"
    and "get_team_standings rt season = Inl MissingDataError"
    and "get_race_results rt rnd season = Inl MissingDataError"
    and "get_qualifying_results rt rnd season = Inl MissingDataError"
    and "get_driver_championships rt driver_id = Inl MissingDataError"
    and "get_driver_seasons rt driver_id = Inl MissingDataError"
  using assms
  by (simp_all add: get_soup_def get_driver_info_def get_driver_standings_def
      get_team_standings_def get_race_results_def get_qualifying_results_def
      get_driver_championships_def get_driver_seasons_def)

lemma queries_return_instance_without_payload:
  assumes "\<forall>url. fetch rt url = None"
  shows "get_driver_wins rt driver_id = Inr (Instance MissingDataError)"
    and "get_driver_poles rt driver_id = Inr (Instance MissingDataError)"
    and "get_driver_teams rt driver_id = Inr (Instance MissingDataError)"
  using assms
  by (simp_all add: get_soup_def get_driver_wins_def get_driver_poles_def get_driver_teams_def)

lemma no_payload_fetch: "\<forall>url. fetch no_payload url = None"
  by (simp add: no_payload_def example_runtime_def)

text \<open>
  C1. When the provider gives no payload, \<open>get_driver_wins\<close>, \<open>get_driver_poles\<close> and
  \<open>get_driver_teams\<close> do not raise: they return the \<open>MissingDataError\<close> instance to the
  caller as an ordinary value. (The other queries raise it, see
  \<open>queries_raise_without_payload\<close>.)
\<close>

theorem get_driver_wins_returns_the_error:
  "get_driver_wins no_payload ''alonso'' = Inr (Instance MissingDataError) \<and>
   get_driver_poles no_payload ''alonso'' = Inr (Instance MissingDataError) \<and>
   get_driver_teams no_payload ''alonso'' = Inr (Instance MissingDataError)"
  using queries_return_instance_without_payload [OF no_payload_fetch] by simp

subsection \<open>get_driver_career\<close>

lemma set_map_filter_id: "(e \<in> set (List.map_filter (\<lambda>r. r) xs)) = (Some e \<in> set xs)"
  by (induction xs) (auto split: option.splits)

lemma first_raised_mem: "first_raised order rs = Some e \<Longrightarrow> Some e \<in> set rs"
proof -
  assume a: "first_raised order rs = Some e"
  let ?l = "map (\<lambda>i. rs ! i) (filter (\<lambda>i. i < length rs) order) @ rs"
  from a have "e \<in> set (List.map_filter (\<lambda>r. r) ?l)"
    by (auto simp: first_raised_def split: list.splits)
  then have "Some e \<in> set ?l" by (simp only: set_map_filter_id)
  then show ?thesis using nth_mem [of _ rs] by fastforce
qed

lemma first_raised_some: "Some e \<in> set rs \<Longrightarrow> \<exists>e'. first_raised order rs = Some e'"
proof -
  assume a: "Some e \<in> set rs"
  let ?l = "map (\<lambda>i. rs ! i) (filter (\<lambda>i. i < length rs) order) @ rs"
  from a have "e \<in> set (List.map_filter (\<lambda>r. r) ?l)"
    by (simp add: set_map_filter_id)
  then show ?thesis by (cases "List.map_filter (\<lambda>r. r) ?l") (auto simp: first_raised_def)
qed

text \<open>
  C4, as the code has it. If one of the five sub-queries raises \<open>MissingDataError\<close>,
  then \<open>get_driver_career\<close> raises, whatever the order in which the sub-queries finish:
  it returns no aggregate, and the exception is the one of the sub-query that fails
  first. It is \<open>MissingDataError\<close> when no sub-query raises an exception of another
  kind.
\<close>

theorem get_driver_career_fails_as_a_whole:
  assumes "Some MissingDataError \<in> set (career_raised rt driver_id)"
  shows "\<exists>e. get_driver_career rt order driver_id = Inl e \<and>
             first_raised order (career_raised rt driver_id) = Some e \<and>
             Some e \<in> set (career_raised rt driver_id) \<and>
             (set (career_raised rt driver_id) \<subseteq> {None, Some MissingDataError}
                \<longrightarrow> e = MissingDataError)"
proof -
  from first_raised_some [OF assms] obtain e
    where e: "first_raised order (career_raised rt driver_id) = Some e" by blast
  then have m: "Some e \<in> set (career_raised rt driver_id)" by (rule first_raised_mem)
  from e have "get_driver_career rt order driver_id = Inl e"
    by (simp add: get_driver_career_def career_raised_def gather5_def and_then_def)
  with m e show ?thesis by blast
qed

theorem get_driver_career_fails_as_a_whole_witness:
  "Some MissingDataError \<in> set (career_raised no_payload ''alonso'') \<and>
   set (career_raised no_payload ''alonso'') \<subseteq> {None, Some MissingDataError} \<and>
   get_driver_career no_payload [4, 3, 2, 1, 0] ''alonso'' = Inl MissingDataError"
proof -
  have r: "career_raised no_payload ''alonso'' =
      [None, None, Some MissingDataError, Some MissingDataError, None]"
    using queries_return_instance_without_payload [OF no_payload_fetch]
      queries_raise_without_payload [OF no_payload_fetch]
    by (simp add: career_raised_def raised_def)
  then have a: "Some MissingDataError \<in> set (career_raised no_payload ''alonso'')" by simp
  from r have b: "set (career_raised no_payload ''alonso'') \<subseteq> {None, Some MissingDataError}"
    by simp
  from get_driver_career_fails_as_a_whole [OF a, of "[4, 3, 2, 1, 0]"] a b
  show ?thesis by blast
qed

text \<open>
  C4 as stated fails where another sub-query raises something else first: with an
  error page for the wins query and no payload otherwise, the championships query
  raises \<open>MissingDataError\<close>, the wins query raises \<open>AttributeError\<close>, and when the
  sub-queries finish in request order the career call fails with \<open>AttributeError\<close>.
\<close>

theorem get_driver_career_other_error_first:
  "get_driver_championships wins_error_page ''alonso'' = Inl MissingDataError \<and>
   get_driver_wins wins_error_page ''alonso'' = Inl AttributeError \<and>
   get_driver_career wins_error_page [0, 1, 2, 3, 4] ''alonso'' = Inl AttributeError"
proof -
  have "get_driver_championships wins_error_page ''alonso'' = Inl MissingDataError"
    by code_simp
  moreover have "get_driver_wins wins_error_page ''alonso'' = Inl AttributeError"
    by code_simp
  moreover have "get_driver_career wins_error_page [0, 1, 2, 3, 4] ''alonso'' = Inl AttributeError"
    by code_simp
  ultimately show ?thesis by simp
qed

subsection \<open>get_race_results\<close>

lemma and_then_Inr: "and_then m f = Inr y \<Longrightarrow> \<exists>x. m = Inr x \<and> f x = Inr y"
  by (cases m) (auto simp: and_then_def)

lemma timing_entry_rank:
  "timing_entry_of rt driver fl = Inr t \<Longrightarrow>
   and_then (subscript fl ''rank'') (py_int rt) = Inr (tm_Rank t)"
  unfolding timing_entry_of_def and_then_def
  by (auto split: sum.splits)

text \<open>The loop adds one data entry per result and, in the same order, one timing entry
  per result that has a fastest lap, with the rank read from that element.\<close>

lemma race_results_loop_timings:
  "race_results_loop rt results res0 = Inr res \<Longrightarrow>
   length (rr_data res) = length (rr_data res0) + length results \<and>
   map (\<lambda>t. Inr (tm_Rank t)) (rr_timings res) =
     map (\<lambda>t. Inr (tm_Rank t)) (rr_timings res0) @
     map (fastest_lap_rank rt) (filter has_fastest_lap results)"
proof (induction results arbitrary: res0)
  case Nil
  then show ?case by simp
next
  case (Cons result rest)
  let ?driver = "find_tag ''driver'' result"
  from Cons.prems obtain entry where
    entry: "result_entry_of rt result ?driver (next_sibling_tag ''time'' result) = Inr entry"
    by (cases "result_entry_of rt result ?driver (next_sibling_tag ''time'' result)")
      (simp_all add: Let_def and_then_def)
  let ?res1 = "res0\<lparr>rr_data := rr_data res0 @ [entry]\<rparr>"
  show ?case
  proof (cases "find_tag ''fastestlap'' result")
    case None
    with Cons.prems entry have "race_results_loop rt rest ?res1 = Inr res"
      by (simp add: Let_def and_then_def)
    from Cons.IH [OF this] None show ?thesis by (simp add: has_fastest_lap_def)
  next
    case (Some fl)
    with Cons.prems entry have
      "and_then (timing_entry_of rt ?driver (Some fl)) (\<lambda>timing.
         race_results_loop rt rest (?res1\<lparr>rr_timings := rr_timings res0 @ [timing]\<rparr>)) = Inr res"
      by (simp add: Let_def and_then_def)
    then obtain timing where
      t: "timing_entry_of rt ?driver (Some fl) = Inr timing"
      and l: "race_results_loop rt rest (?res1\<lparr>rr_timings := rr_timings res0 @ [timing]\<rparr>)
                = Inr res"
      by (blast dest: and_then_Inr)
    from timing_entry_rank [OF t] Some
    have r: "fastest_lap_rank rt result = Inr (tm_Rank timing)"
      by (simp add: fastest_lap_rank_def)
    from Cons.IH [OF l] Some r show ?thesis by (simp add: has_fastest_lap_def)
  qed
qed

lemma race_results_of_loop:
  assumes "race_results_of rt soup = Inr res"
  shows "\<exists>results res0.
           and_then (dot (find_tag ''race'' soup) ''resultslist'')
             (\<lambda>l. dot_find_all l ''result'') = Inr results \<and>
           race_results_loop rt results res0 = Inr res \<and>
           rr_data res0 = [] \<and> rr_timings res0 = []"
proof -
  let ?results = "and_then (dot (find_tag ''race'' soup) ''resultslist'')
             (\<lambda>l. dot_find_all l ''result'')"
  from assms obtain results where results: "?results = Inr results"
    unfolding race_results_of_def Let_def by (blast dest: and_then_Inr)
  from assms results have
    "\<exists>season rnd racename url d t.
       race_results_loop rt results
         \<lparr>rr_season = season, rr_round = rnd, rr_race = racename, rr_url = url,
          rr_date = d @ '' '' @ season, rr_time = t, rr_data = [], rr_timings = []\<rparr> = Inr res"
    unfolding race_results_of_def Let_def and_then_def
    by (simp split: sum.splits) blast
  then obtain res0 where "race_results_loop rt results res0 = Inr res"
    and "rr_data res0 = []" and "rr_timings res0 = []"
    by force
  with results show ?thesis by blast
qed











subsection \<open>The two filter functions\<close>

text \<open>
  C6. For the filter string \<open>top5\<close> and a sorted sequence of at least six timing
  entries, \<open>utils.filter_times\<close> returns the first five entries (its test is
  \<open>'top' in filter\<close>), while \<open>api.rank_best_lap_times\<close> returns the whole sequence: its
  tests are by identity, and an object with the characters \<open>top5\<close> is none of the
  literals. The two results differ.
\<close>

theorem rank_best_lap_times_top5_differs:
  assumes "chars flt = ''top5''" and "same_heap flt"
    and "sorted (map tm_Rank (rr_timings data))" and "6 \<le> length (rr_timings data)"
  shows "filter_times (rr_timings data) (Some (chars flt)) = Inr (take 5 (rr_timings data)) \<and>
         rank_best_lap_times data flt = Inr (Many (rr_timings data)) \<and>
         take 5 (rr_timings data) \<noteq> rr_timings data"
proof -
  have s: "sort_key tm_Rank (rr_timings data) = rr_timings data"
    using assms(3) by (rule sort_key_id_if_sorted)
  have n: "\<not> py_is flt lit_slowest" "\<not> py_is flt lit_fastest" "\<not> py_is flt lit_top"
    "\<not> py_is flt lit_bottom"
    using assms(1,2)
    by (auto simp: same_heap_def lit_slowest_def lit_fastest_def lit_top_def lit_bottom_def
        split: if_splits)
  have "length (take 5 (rr_timings data)) \<noteq> length (rr_timings data)"
    using assms(4) by simp
  then have "take 5 (rr_timings data) \<noteq> rr_timings data" by metis
  moreover have
    "filter_times (rr_timings data) (Some (chars flt)) = Inr (take 5 (rr_timings data))"
    using assms(1) by (simp add: filter_times_def py_slice_to_def)
  moreover have "rank_best_lap_times data flt = Inr (Many (rr_timings data))"
    using n s by (simp add: rank_best_lap_times_def)
  ultimately show ?thesis by simp
qed

theorem rank_best_lap_times_top5_differs_witness:
  "chars (Str 9 ''top5'') = ''top5'' \<and> same_heap (Str 9 ''top5'') \<and>
   sorted (map tm_Rank (rr_timings (belgium_results\<lparr>rr_timings := six_timings\<rparr>))) \<and>
   6 \<le> length (rr_timings (belgium_results\<lparr>rr_timings := six_timings\<rparr>)) \<and>
   filter_times six_timings (Some ''top5'') = Inr (take 5 six_timings) \<and>
   rank_best_lap_times (belgium_results\<lparr>rr_timings := six_timings\<rparr>) (Str 9 ''top5'')
     = Inr (Many six_timings) \<and>
   take 5 six_timings \<noteq> six_timings"
proof -
  have a: "chars (Str 9 ''top5'') = ''top5''" by simp
  have b: "same_heap (Str 9 ''top5'')" by code_simp
  have c: "sorted (map tm_Rank (rr_timings (belgium_results\<lparr>rr_timings := six_timings\<rparr>)))"
    by (simp add: six_timings_def)
  have d: "6 \<le> length (rr_timings (belgium_results\<lparr>rr_timings := six_timings\<rparr>))"
    by (simp add: six_timings_def)
  from rank_best_lap_times_top5_differs [OF a b c d] a b c d show ?thesis by simp
qed

end
